theory Spec2Isabelle
  imports Main "HOL-Library.Sublist"
begin

section \<open>Python string operations used by the service\<close>

text \<open>
  Python strings are modelled as \<^typ>\<open>string\<close>. The catalog and every example of the
  specification are ASCII, where one \<^typ>\<open>char\<close> is one Python character.
\<close>

definition lower_chr :: "char \<Rightarrow> char" where
  \<comment> \<open>One character of \<open>str.lower()\<close>: \<open>A\<close>..\<open>Z\<close> go to \<open>a\<close>..\<open>z\<close>, the rest of ASCII stays.\<close>
  "lower_chr c =
     (case map_of (zip ''ABCDEFGHIJKLMNOPQRSTUVWXYZ'' ''abcdefghijklmnopqrstuvwxyz'') c of
        None \<Rightarrow> c
      | Some l \<Rightarrow> l)"

definition lower :: "string \<Rightarrow> string" where
  "lower s = map lower_chr s"

fun contains :: "string \<Rightarrow> string \<Rightarrow> bool" where
  \<comment> \<open>\<open>contains sub s\<close> is Python's \<open>sub in s\<close> on strings.\<close>
  "contains sub [] = (sub = [])"
| "contains sub (c # cs) = (prefix sub (c # cs) \<or> contains sub cs)"

function replace :: "string \<Rightarrow> string \<Rightarrow> string \<Rightarrow> string" where
  \<comment> \<open>\<open>replace old new s\<close> is \<open>s.replace(old, new)\<close>: every occurrence, left to right,
      without overlap; an empty \<open>old\<close> matches before every character and at the end.\<close>
  "replace old new [] = (if old = [] then new else [])"
| "replace old new (c # cs) =
     (if old = [] then new @ c # replace old new cs
      else if prefix old (c # cs) then new @ replace old new (drop (length old) (c # cs))
      else c # replace old new cs)"
  by pat_completeness auto
termination
  by (relation "measure (\<lambda>(old, new, s). length s)") auto

fun split_chr :: "char \<Rightarrow> string \<Rightarrow> string list" where
  \<comment> \<open>\<open>split_chr sep s\<close> is \<open>s.split(sep)\<close> for a separator of one character.\<close>
  "split_chr sep [] = [[]]"
| "split_chr sep (c # cs) =
     (if c = sep then [] # split_chr sep cs
      else (case split_chr sep cs of
              [] \<Rightarrow> [[c]]
            | p # ps \<Rightarrow> (c # p) # ps))"

definition slice_index :: "nat \<Rightarrow> int \<Rightarrow> nat" where
  \<comment> \<open>A slice bound on a list of length \<open>n\<close>: negative bounds count from the end, and
      every bound is clamped to \<open>0..n\<close>.\<close>
  "slice_index n i = (if i < 0 then nat (max 0 (int n + i)) else min n (nat i))"

definition py_slice :: "'a list \<Rightarrow> int \<Rightarrow> int \<Rightarrow> 'a list" where
  \<comment> \<open>\<open>py_slice xs i j\<close> is \<open>xs[i:j]\<close>.\<close>
  "py_slice xs i j =
     (let lo = slice_index (length xs) i; hi = slice_index (length xs) j
      in take (hi - lo) (drop lo xs))"

section \<open>Avatar records and the catalog\<close>

text \<open>
  \<open>main.py\<close> holds the service twice. Lines 1-231 are the full service: a builder that
  removes \<open>.png\<close>, \<open>.jpg\<close> and \<open>.jpeg\<close> and joins the filename as it is, a list of 144
  filenames, and the handlers \<open>get_all_avatars\<close>, \<open>get_avatar_by_name\<close>,
  \<open>get_random_avatars\<close>, \<open>get_avatar_stats\<close> and \<open>get_avatar_image\<close>. Lines 233-358 are a
  shorter one: a builder that removes \<open>.png\<close> and writes \<open>%20\<close> for spaces, the constant
  \<open>FILENAMES\<close> of five filenames, and the handlers \<open>get_avatars\<close> and \<open>get_avatar\<close>. Where
  both parts define the same name, the first part's definition carries the suffix \<open>_v1\<close>
  here and the second part's the suffix \<open>_v2\<close>. Loaded as one module, the second part's
  definitions of \<open>Avatar\<close>, \<open>load_avatars\<close>, \<open>avatar_cache\<close> and \<open>avatar_dict\<close> replace the
  first part's, so every handler then reads a catalog made by the second builder. The
  handlers take the catalog as an argument, and the general theorems hold for either.
\<close>

record avatar =
  name :: string
  imageurl :: string

definition BASE_AVATAR_URL :: string where
  "BASE_AVATAR_URL = ''http://www.tam-files.toko-aplikasi.my.id/images/avatars/''"

definition plain_segment :: "string \<Rightarrow> bool" where
  \<comment> \<open>A relative reference that is one plain path segment: not empty, not a dot segment,
      printable ASCII, no leading space, and none of the delimiters \<open>: / ? # ;\<close>.\<close>
  "plain_segment u \<longleftrightarrow>
     u \<noteq> [] \<and> u \<noteq> ''.'' \<and> u \<noteq> ''..'' \<and> hd u \<noteq> CHR '' '' \<and>
     list_all (\<lambda>c. 32 \<le> (of_char c :: nat) \<and> (of_char c :: nat) < 127 \<and>
                    c \<notin> set '':/?#;'') u"

definition urljoin :: "string \<Rightarrow> string \<Rightarrow> string" where
  \<comment> \<open>\<open>urllib.parse.urljoin\<close> of the Python standard library, which is not part of the
      repository. The base here is always \<open>BASE_AVATAR_URL\<close>, an absolute URL whose path
      ends in \<open>/\<close>; joined with a \<open>plain_segment\<close> the library returns the base followed
      by the segment. Only that case is modelled: every theorem that depends on the value
      of \<open>urljoin\<close> is stated for plain segments.\<close>
  "urljoin base url = base @ url"

definition from_filename_v1 :: "string \<Rightarrow> avatar" where
  \<comment> \<open>\<open>Avatar.from_filename\<close>, lines 18-23.\<close>
  "from_filename_v1 filename =
     \<lparr> name = replace ''.jpeg'' '''' (replace ''.jpg'' '''' (replace ''.png'' '''' filename)),
       imageurl = urljoin BASE_AVATAR_URL filename \<rparr>"

definition from_filename_v2 :: "string \<Rightarrow> avatar" where
  \<comment> \<open>\<open>Avatar.from_filename\<close>, lines 250-254.\<close>
  "from_filename_v2 filename =
     \<lparr> name = replace ''.png'' '''' filename,
       imageurl = urljoin BASE_AVATAR_URL (replace '' '' ''%20'' filename) \<rparr>"

record catalog =
  avatar_cache :: "avatar list"
  avatar_dict :: "string \<rightharpoonup> avatar"

definition index_by_name :: "avatar list \<Rightarrow> (string \<rightharpoonup> avatar)" where
  \<comment> \<open>The dict comprehension \<open>{a.name.lower(): a for a in avatar_cache}\<close>: records are
      stored in list order, a later one replacing an earlier one under the same key.\<close>
  "index_by_name cache = fold (\<lambda>a m. m(lower (name a) \<mapsto> a)) cache Map.empty"

definition load_from :: "(string \<Rightarrow> avatar) \<Rightarrow> string list \<Rightarrow> catalog" where
  \<comment> \<open>The two assignments shared by both \<open>load_avatars\<close>, for a builder and a filename list.\<close>
  "load_from build filenames =
     (let cache = map build filenames
      in \<lparr> avatar_cache = cache, avatar_dict = index_by_name cache \<rparr>)"

definition filenames :: "string list" where
  \<comment> \<open>The list inside the first \<open>load_avatars\<close>, lines 52-101.\<close>
  "filenames =
     [
      ''Abraham Baker.png'', ''Adem Lane.png'', ''Adil Floyd.png'',
      ''Adriana O'Sullivan.png'', ''Alec Whitten.png'', ''Alesha Barry.png'',
      ''Ali Mahdi.png'', ''Aliah Lane.png'', ''Alisa Hester.png'',
      ''Amanda Lowery.png'', ''Amelie Bennett.png'', ''Amelie Laurent.png'',
      ''Ammar Foley.png'', ''Anaiah Whitten.png'', ''Andi Lane.png'',
      ''Angelica Wallace.png'', ''Anita Cruz.png'', ''Ashton Blackwell.png'',
      ''Ashwin Santiago.png'', ''Aston Hood.png'', ''Ava Bentley.png'',
      ''Ava Wright.png'', ''Ayah Wilkinson.png'', ''Aysha Becker.png'',
      ''Bailey Richards.png'', ''Bec Ferguson.png'', ''Belle Woods.png'',
      ''Benedict Doherty.png'', ''Billie Wright.png'', ''Blake Riley.png'',
      ''Brianna Ware.png'', ''Byron Robertson.png'', ''Caitlyn King.png'',
      ''Cameron Yang.png'', ''Candice Wu.png'', ''Clifford Jennings.png'',
      ''Cohen Lozano.png'', ''Courtney Turner.png'', ''Danyal Lester.png'',
      ''Demi Wilkinson.png'', ''Dillan Nguyen.png'', ''Drew Cano.png'',
      ''Eduard Franz.png'', ''Elena Owens.png'', ''Elisa Nishikawa.png'',
      ''Elsie Roy.png'', ''Erica Wyatt.png'', ''Ethan Campbell.png'',
      ''Ethan Valdez.png'', ''Eva Bond.png'', ''Eve Leroy.png'',
      ''Fergus Gray.png'', ''Fleur Cook.png'', ''Florence Shaw.png'',
      ''Frank Whitaker.png'', ''Franklin Mays.png'', ''Freya Browning.png'',
      ''Genevieve Mclean.png'', ''Harriet Rojas.png'', ''Harry Bender.png'',
      ''Hasan Johns.png'', ''Herbert Fowler.png'', ''Isla Allison.png'',
      ''Isobel Carroll.png'', ''Isobel Fuller.png'', ''Jackson Reed.png'',
      ''Jay Shepard.png'', ''Jaya Willis.png'', ''Jayden Moss.png'',
      ''Jessie Meyton.png'', ''Jonathan Kelly.png'', ''Jordan Burgess.png'',
      ''Joshua Wilson.png'', ''Julius Vaughan.png'', ''Kaden Scott.png'',
      ''Kaitlin Hale.png'', ''Kari Rasmussen.png'', ''Kate Morrison.png'',
      ''Katherine Moss.png'', ''Katy Fuller.png'', ''Kelly Williams.png'',
      ''Kelsey Lowe.png'', ''Koray Okumus.png'', ''Kyla Clay.png'',
      ''Lana Steiner.png'', ''Levi Rocha.png'', ''Leyton Fields.png'',
      ''Liam Hood.png'', ''Lily-Rose Chedjou.png'', ''Loki Bright.png'',
      ''Lola Sanders.png'', ''Lori Bryson.png'', ''Lucy Bond.png'',
      ''Lulu Meyers.png'', ''Luqman Anthony.png'', ''Lyle Kauffman.png'',
      ''Maddison Gillespie.png'', ''Madeleine Pitts.png'', ''Marco Gross.png'',
      ''Marco Kelly.png'', ''Marvin Robbins.png'', ''Mathilde Lewis.png'',
      ''Maxwell Tan.png'', ''Mikey Lawrence.png'', ''Mollie Hall.png'',
      ''Molly Vaughan.png'', ''Nala Goins.png'', ''Natali Craig.png'',
      ''Nic Fassbender.png'', ''Nicola Harris.png'', ''Nicolas Trevino.png'',
      ''Nicolas Wang.png'', ''Nikolas Gibbons.png'', ''Noah Pierre.png'',
      ''Noel Baldwin.png'', ''Olivia Rhye.png'', ''Olly Schroeder.png'',
      ''Orlando Diggs.png'', ''Owen Garcia.png'', ''Owen Harding.png'',
      ''Phoenix Baker.png'', ''Pippa Wilkinson.png'', ''Priya Shepard.png'',
      ''Rachael Strong.png'', ''Rayhan Zua.png'', ''Rene Wells.png'',
      ''Rhea Levine.png'', ''Rhianna Shepard.png'', ''Riley O'Moore.png'',
      ''Rory Huff.png'', ''Rosalee Melvin.png'', ''Sally Mason.png'',
      ''Sarah Page.png'', ''Scott Clayton.png'', ''Sienna Hewitt.png'',
      ''Sophia Perez.png'', ''Stefan Sears.png'', ''Youssef Roberson.png'',
      ''Zahir Mays.png'', ''Zahra Christensen.png'', ''Zaid Schwartz.png'',
      ''Zara Bush.png'', ''Zaynab Donnelly.png'', ''Zuzanna Burke.png''
     ]"

definition FILENAMES :: "string list" where
  \<comment> \<open>The module constant of lines 273-280.\<close>
  "FILENAMES =
     [''Abraham Baker.png'', ''Adem Lane.png'', ''Adil Floyd.png'',
      ''Adriana O'Sullivan.png'', ''Alec Whitten.png'']"

definition initial_catalog :: catalog where
  \<comment> \<open>The module globals before startup: \<open>avatar_cache = []\<close>, \<open>avatar_dict = {}\<close>.\<close>
  "initial_catalog = \<lparr> avatar_cache = [], avatar_dict = Map.empty \<rparr>"

definition load_avatars_v1 :: catalog where
  \<comment> \<open>\<open>load_avatars\<close>, lines 46-108. Nothing in the \<open>try\<close> block raises on these strings.\<close>
  "load_avatars_v1 = load_from from_filename_v1 filenames"

definition load_avatars_v2 :: catalog where
  \<comment> \<open>\<open>load_avatars\<close>, lines 286-291.\<close>
  "load_avatars_v2 = load_from from_filename_v2 FILENAMES"

section \<open>Request handlers\<close>

datatype error =
    HTTPException (status_code: int) (detail: "string option")
  | RequestValidationError
  | Unhandled string

definition status_phrase :: "int \<rightharpoonup> string" where
  \<comment> \<open>\<open>http.HTTPStatus(code).phrase\<close> for the two status codes the handlers raise.\<close>
  "status_phrase = map_of [(400, ''Bad Request''), (404, ''Not Found'')]"

definition http_exception :: "int \<Rightarrow> string option \<Rightarrow> error" where
  \<comment> \<open>The constructor \<open>HTTPException(status_code, detail)\<close> of the framework: without a
      \<open>detail\<close> argument the exception carries the phrase of its status code, and the
      reply that the framework makes of it has the body \<open>{detail: <detail>}\<close>.\<close>
  "http_exception code detail_arg =
     HTTPException code (case detail_arg of None \<Rightarrow> status_phrase code | Some d \<Rightarrow> Some d)"

type_synonym json_record = "(string \<times> string) list"

definition avatar_json :: "avatar \<Rightarrow> json_record" where
  \<comment> \<open>The dict literal that every handler builds from a record. \<open>split\<close> never returns
      an empty list, so \<open>[-1]\<close> is its last element.\<close>
  "avatar_json a =
     [(''name'', name a),
      (''imageurl'', imageurl a),
      (''filename'', last (split_chr CHR ''/'' (imageurl a)))]"

definition search_avatars :: "string option \<Rightarrow> avatar list \<Rightarrow> avatar list" where
  \<comment> \<open>\<open>if search: ...\<close> of both list handlers: \<open>None\<close> and the empty string are falsy.\<close>
  "search_avatars search avatars =
     (case search of
        None \<Rightarrow> avatars
      | Some s \<Rightarrow>
          if s = [] then avatars
          else (let search_lower = lower s
                in filter (\<lambda>a. contains search_lower (lower (name a))) avatars))"

definition get_all_avatars ::
  "catalog \<Rightarrow> int \<Rightarrow> int \<Rightarrow> string option \<Rightarrow> error + json_record list" where
  \<comment> \<open>\<open>get_all_avatars\<close>, lines 115-145: \<open>skip: Query(0, ge=0)\<close>,
      \<open>limit: Query(100, ge=1, le=200)\<close>; a parameter outside its range is refused by
      the framework before the body runs.\<close>
  "get_all_avatars st skip limit search =
     (if skip < 0 \<or> limit < 1 \<or> 200 < limit then Inl RequestValidationError
      else (let avatars = search_avatars search (avatar_cache st);
                paginated = py_slice avatars skip (skip + limit)
            in Inr (map avatar_json paginated)))"

definition get_avatars ::
  "catalog \<Rightarrow> int \<Rightarrow> int \<Rightarrow> string option \<Rightarrow> error + json_record list" where
  \<comment> \<open>\<open>get_avatars\<close>, lines 309-331: \<open>skip: Query(0, ge=0)\<close>,
      \<open>limit: Query(20, ge=1, le=100)\<close>.\<close>
  "get_avatars st skip limit search =
     (if skip < 0 \<or> limit < 1 \<or> 100 < limit then Inl RequestValidationError
      else (let avatars = search_avatars search (avatar_cache st);
                paginated = py_slice avatars skip (skip + limit)
            in Inr (map avatar_json paginated)))"

definition get_avatar_by_name :: "catalog \<Rightarrow> string \<Rightarrow> error + json_record" where
  \<comment> \<open>\<open>get_avatar_by_name\<close>, lines 147-170. An \<open>Avatar\<close> object is always truthy, so
      \<open>not avatar\<close> holds exactly for \<open>None\<close>.\<close>
  "get_avatar_by_name st avatar_name =
     (let avatar = avatar_dict st (lower avatar_name);
          avatar =
            (case avatar of
               Some a \<Rightarrow> Some a
             | None \<Rightarrow>
                 (let matches =
                        filter (\<lambda>a. contains (lower avatar_name) (lower (name a)))
                          (avatar_cache st)
                  in case matches of [] \<Rightarrow> None | m # _ \<Rightarrow> Some m))
      in case avatar of
           None \<Rightarrow>
             Inl (http_exception 404 (Some (''Avatar '' @ [CHR 0x27] @ avatar_name @
                                          [CHR 0x27] @ '' not found'')))
         | Some a \<Rightarrow> Inr (avatar_json a))"

definition get_avatar :: "catalog \<Rightarrow> string \<Rightarrow> error + json_record" where
  \<comment> \<open>\<open>get_avatar\<close>, lines 333-351.\<close>
  "get_avatar st avatar_name =
     (let avatar = avatar_dict st (lower avatar_name);
          avatar =
            (case avatar of
               Some a \<Rightarrow> Some a
             | None \<Rightarrow>
                 (let matches =
                        filter (\<lambda>a. contains (lower avatar_name) (lower (name a)))
                          (avatar_cache st)
                  in case matches of [] \<Rightarrow> None | m # _ \<Rightarrow> Some m))
      in case avatar of
           None \<Rightarrow>
             Inl (http_exception 404 (Some (''Avatar '' @ [CHR 0x27] @ avatar_name @
                                          [CHR 0x27] @ '' not found'')))
         | Some a \<Rightarrow> Inr (avatar_json a))"

definition random_sample :: "nat list \<Rightarrow> 'a list \<Rightarrow> int \<Rightarrow> 'a list option" where
  \<comment> \<open>\<open>random.sample(population, k)\<close>. The generator's choice is the argument \<open>draw\<close>, the
      order in which it picks positions of the population (a permutation of them); the
      sample is the elements at the first \<open>k\<close> picks. \<open>None\<close> is the \<open>ValueError\<close> for a
      negative \<open>k\<close> or one larger than the population.\<close>
  "random_sample draw population k =
     (if k < 0 \<or> int (length population) < k then None
      else Some (map (\<lambda>i. population ! i) (take (nat k) draw)))"

definition is_draw :: "nat list \<Rightarrow> nat \<Rightarrow> bool" where
  \<comment> \<open>What the generator may choose for a population of \<open>n\<close> elements: every position once.\<close>
  "is_draw draw n \<longleftrightarrow> distinct draw \<and> set draw = {..<n}"

definition get_random_avatars ::
  "catalog \<Rightarrow> nat list \<Rightarrow> int \<Rightarrow> error + json_record list" where
  \<comment> \<open>\<open>get_random_avatars\<close>, lines 172-196.\<close>
  "get_random_avatars st draw count =
     (if count < 1 then Inl (http_exception 400 (Some ''Count must be at least 1''))
      else (let count = (if count > 50 then 50 else count)
            in case random_sample draw (avatar_cache st)
                      (min count (int (length (avatar_cache st)))) of
                 None \<Rightarrow> Inl (Unhandled ''ValueError'')
               | Some selected \<Rightarrow> Inr (map avatar_json selected)))"



record upstream =
  upstream_status :: int
  upstream_content_type :: string
  upstream_content :: string

record response =
  content :: string
  media_type :: string

definition get_avatar_image ::
  "catalog \<Rightarrow> (string \<Rightarrow> string + upstream) \<Rightarrow> string \<Rightarrow> error + response" where
  \<comment> \<open>\<open>get_avatar_image\<close>, lines 211-223. \<open>fetch\<close> is the outbound \<open>client.get\<close>: it
      returns what the remote server answered, or the exception it raised, which the
      handler does not catch.\<close>
  "get_avatar_image st fetch avatar_name =
     (case avatar_dict st (lower avatar_name) of
        None \<Rightarrow> Inl (http_exception 404 None)
      | Some a \<Rightarrow>
          (case fetch (imageurl a) of
             Inl e \<Rightarrow> Inl (Unhandled e)
           | Inr r \<Rightarrow> Inr \<lparr> content = upstream_content r, media_type = ''image/png'' \<rparr>))"

section \<open>Facts about the string and list operations\<close>

lemma http_exception_detail [simp]:
  "http_exception code (Some d) = HTTPException code (Some d)"
  by (simp add: http_exception_def)

lemma http_exception_404 [simp]:
  "http_exception 404 None = HTTPException 404 (Some ''Not Found'')"
  by (simp add: http_exception_def status_phrase_def)

lemma contains_sublist: "contains sub s \<longleftrightarrow> sublist sub s"
  by (induction s) (simp_all add: sublist_Cons_right)

lemma split_chr_not_Nil: "split_chr sep s \<noteq> []"
  by (induction s) (auto split: list.splits)

lemma slice_index_nonneg: "0 \<le> i \<Longrightarrow> slice_index n i = min n (nat i)"
  by (simp add: slice_index_def)

lemma py_slice_window:
  assumes "0 \<le> skip" and "0 \<le> limit"
  shows "py_slice xs skip (skip + limit) = take (nat limit) (drop (nat skip) xs)"
proof -
  have lo: "slice_index (length xs) skip = min (length xs) (nat skip)"
    using assms by (simp add: slice_index_nonneg)
  have hi: "slice_index (length xs) (skip + limit) = min (length xs) (nat skip + nat limit)"
    using assms by (simp add: slice_index_nonneg nat_add_distrib)
  show ?thesis
  proof (cases "nat skip \<le> length xs")
    case True
    then show ?thesis
      unfolding py_slice_def Let_def lo hi
      by (simp add: min_def)
  next
    case False
    then show ?thesis
      unfolding py_slice_def Let_def lo hi by simp
  qed
qed

lemma find_append_case:
  "List.find P (xs @ ys) =
     (case List.find P xs of None \<Rightarrow> List.find P ys | Some a \<Rightarrow> Some a)"
  by (induction xs) simp_all

lemma fold_index_find:
  "fold (\<lambda>a m. m(key a \<mapsto> a)) cache m k =
     (case List.find (\<lambda>a. key a = k) (rev cache) of None \<Rightarrow> m k | Some a \<Rightarrow> Some a)"
proof (induction cache arbitrary: m)
  case Nil
  then show ?case by simp
next
  case (Cons x xs)
  then show ?case
    by (simp add: find_append_case split: option.splits)
qed

lemma index_by_name_find:
  "index_by_name cache k = List.find (\<lambda>a. lower (name a) = k) (rev cache)"
  unfolding index_by_name_def
  by (simp add: fold_index_find split: option.splits)

lemma find_rev_last:
  assumes "i < length xs" and "P (xs ! i)"
    and "\<forall>l. i < l \<and> l < length xs \<longrightarrow> \<not> P (xs ! l)"
  shows "List.find P (rev xs) = Some (xs ! i)"
proof -
  have xs: "xs = take i xs @ xs ! i # drop (Suc i) xs"
    using assms(1) by (simp add: id_take_nth_drop)
  have none: "List.find P (rev (drop (Suc i) xs)) = None"
  proof -
    have "\<not> P x" if "x \<in> set (drop (Suc i) xs)" for x
    proof -
      from that obtain l where "l < length (drop (Suc i) xs)" and "x = drop (Suc i) xs ! l"
        by (auto simp: in_set_conv_nth)
      then have "Suc i + l < length xs" and "x = xs ! (Suc i + l)"
        by simp_all
      with assms(3) show ?thesis by simp
    qed
    then show ?thesis by (simp add: find_None_iff)
  qed
  have "rev xs = rev (drop (Suc i) xs) @ xs ! i # rev (take i xs)"
    by (subst xs) simp
  then show ?thesis
    using none assms(2) by (simp add: find_append_case)
qed

lemma find_rev_position:
  assumes "i < length xs" and "P (xs ! i)"
  shows "\<exists>j. i \<le> j \<and> j < length xs \<and> P (xs ! j) \<and> List.find P (rev xs) = Some (xs ! j) \<and>
             (\<forall>l. j < l \<and> l < length xs \<longrightarrow> \<not> P (xs ! l))"
proof -
  define S where "S = {j. i \<le> j \<and> j < length xs \<and> P (xs ! j)}"
  have fin: "finite S" and ne: "S \<noteq> {}"
    using assms by (auto simp: S_def)
  define j where "j = Max S"
  have jS: "j \<in> S" unfolding j_def using fin ne by (rule Max_in)
  have later: "\<not> P (xs ! l)" if "j < l" "l < length xs" for l
  proof
    assume "P (xs ! l)"
    with that jS have "l \<in> S" by (simp add: S_def)
    then have "l \<le> j" unfolding j_def using fin by simp
    with that show False by simp
  qed
  have "List.find P (rev xs) = Some (xs ! j)"
    using jS later by (intro find_rev_last) (auto simp: S_def)
  with jS later show ?thesis by (auto simp: S_def)
qed

lemma dom_index_by_name: "dom (index_by_name cache) = (\<lambda>a. lower (name a)) ` set cache"
proof -
  have "k \<in> dom (index_by_name cache) \<longleftrightarrow> k \<in> (\<lambda>a. lower (name a)) ` set cache" for k
    by (auto simp: index_by_name_find dom_def find_None_iff)
  then show ?thesis by blast
qed

section \<open>The index of lowercased names\<close>

text \<open>
  Claim C9. The index is derived from the ordered list that is built with it: the list holds
  one record per filename, in order; the keys of the index are exactly the lowercased names
  of the records of the list; and the entry under the lowercased name of the record at
  position \<open>i\<close> is the record at the last position \<open>j \<ge> i\<close> that has the same lowercased
  name, so a later record replaces an earlier one in the index while both stay in the list.
\<close>

theorem index_derived_from_list:
  fixes build :: "string \<Rightarrow> avatar" and fs :: "string list"
  defines "st \<equiv> load_from build fs"
  defines "key \<equiv> (\<lambda>i. lower (name (avatar_cache (load_from build fs) ! i)))"
  shows "avatar_cache st = map build fs \<and>
         dom (avatar_dict st) = (\<lambda>a. lower (name a)) ` set (avatar_cache st) \<and>
         (\<forall>i < length (avatar_cache st).
            \<exists>j. i \<le> j \<and> j < length (avatar_cache st) \<and> key j = key i \<and>
                avatar_dict st (key i) = Some (avatar_cache st ! j) \<and>
                (\<forall>l. j < l \<and> l < length (avatar_cache st) \<longrightarrow> key l \<noteq> key i))"
proof -
  have c: "avatar_cache st = map build fs"
    by (simp add: st_def load_from_def Let_def)
  have d: "avatar_dict st = index_by_name (avatar_cache st)"
    by (simp add: st_def load_from_def Let_def)
  have k: "key i = lower (name (avatar_cache st ! i))" for i
    by (simp add: key_def st_def)
  have dm: "dom (avatar_dict st) = (\<lambda>a. lower (name a)) ` set (avatar_cache st)"
    by (simp add: d dom_index_by_name)
  have last_wins:
    "\<exists>j. i \<le> j \<and> j < length (avatar_cache st) \<and> key j = key i \<and>
         avatar_dict st (key i) = Some (avatar_cache st ! j) \<and>
         (\<forall>l. j < l \<and> l < length (avatar_cache st) \<longrightarrow> key l \<noteq> key i)"
    if i: "i < length (avatar_cache st)" for i
  proof -
    have "(\<lambda>a. lower (name a) = key i) (avatar_cache st ! i)"
      by (simp add: k)
    from find_rev_position [OF i, of "\<lambda>a. lower (name a) = key i", OF this]
    show ?thesis
      by (auto simp: d index_by_name_find k)
  qed
  from c dm last_wins show ?thesis by blast
qed

text \<open>
  Two filenames whose names differ only in case: both records are in the list, and the
  index holds the second.
\<close>

theorem index_derived_from_list_witness:
  "avatar_cache (load_from from_filename_v2 [''Ann.png'', ''ANN.png'']) =
     [from_filename_v2 ''Ann.png'', from_filename_v2 ''ANN.png''] \<and>
   avatar_dict (load_from from_filename_v2 [''Ann.png'', ''ANN.png'']) ''ann'' =
     Some (from_filename_v2 ''ANN.png'')"
proof -
  let ?st = "load_from from_filename_v2 [''Ann.png'', ''ANN.png'']"
  let ?key = "\<lambda>i. lower (name (avatar_cache ?st ! i))"
  note t = index_derived_from_list [of from_filename_v2 "[''Ann.png'', ''ANN.png'']"]
  have c: "avatar_cache ?st = [from_filename_v2 ''Ann.png'', from_filename_v2 ''ANN.png'']"
    using t by simp
  have k0: "?key 0 = ''ann''"
    by (simp add: c from_filename_v2_def lower_def lower_chr_def)
  have k1: "?key 1 = ''ann''"
    by (simp add: c from_filename_v2_def lower_def lower_chr_def)
  have len: "0 < length (avatar_cache ?st)"
    by (simp add: c)
  from t have "\<forall>i < length (avatar_cache ?st).
            \<exists>j. i \<le> j \<and> j < length (avatar_cache ?st) \<and> ?key j = ?key i \<and>
                avatar_dict ?st (?key i) = Some (avatar_cache ?st ! j) \<and>
                (\<forall>l. j < l \<and> l < length (avatar_cache ?st) \<longrightarrow> ?key l \<noteq> ?key i)"
    by blast
  from this [rule_format, OF len] obtain j
    where j: "j < length (avatar_cache ?st)"
      and dj: "avatar_dict ?st (?key 0) = Some (avatar_cache ?st ! j)"
      and lt: "\<forall>l. j < l \<and> l < length (avatar_cache ?st) \<longrightarrow> ?key l \<noteq> ?key 0"
    by blast
  have "j = 1"
  proof (rule ccontr)
    assume "j \<noteq> 1"
    with j have "j = 0" by (simp add: c)
    moreover have "(1::nat) < length (avatar_cache ?st)" by (simp add: c)
    ultimately have "?key 1 \<noteq> ?key 0" using lt by blast
    then show False by (simp only: k0 k1)
  qed
  with dj k0 have "avatar_dict ?st ''ann'' = Some (avatar_cache ?st ! 1)" by simp
  with c show ?thesis by simp
qed

lemma list_handler_window:
  assumes "0 \<le> skip" and "1 \<le> limit"
  shows "map avatar_json (py_slice avatars skip (skip + limit)) =
           map avatar_json (take (nat limit) (drop (nat skip) avatars))"
  using assms by (simp add: py_slice_window)

lemma window_props:
  fixes flt :: "avatar list" and limit skip :: nat
  defines "rs \<equiv> map avatar_json (take limit (drop skip flt))"
  shows "length rs \<le> limit \<and>
         length rs = min limit (length flt - skip) \<and>
         (\<forall>i < length rs. rs ! i = avatar_json (flt ! (skip + i))) \<and>
         (length flt \<le> skip \<longrightarrow> rs = [])"
proof -
  have "rs ! i = avatar_json (flt ! (skip + i))" if "i < length rs" for i
  proof -
    from that have "i < limit" and "i < length flt - skip"
      by (simp_all add: rs_def)
    moreover from this have "skip + i < length flt" and "skip \<le> length flt"
      by linarith+
    ultimately show ?thesis
      by (simp add: rs_def)
  qed
  then show ?thesis
    by (simp add: rs_def)
qed

section \<open>Listing\<close>

text \<open>
  Claim C1. For \<open>skip \<ge> 0\<close> and \<open>limit\<close> in the handler's range (1 to 200 for
  \<open>get_all_avatars\<close>, 1 to 100 for \<open>get_avatars\<close>) the list handler returns a result, never
  an error; the result has at most \<open>limit\<close> records, exactly as many as the filtered catalog
  has from position \<open>skip\<close> on, up to \<open>limit\<close>; its \<open>i\<close>-th record is the response form
  of the record at position \<open>skip + i\<close> of the filtered catalog; and it is empty when \<open>skip\<close>
  is at or past the end.
\<close>

theorem list_returns_slice:
  fixes st :: catalog and skip limit :: int and search :: "string option"
  assumes "0 \<le> skip" and "1 \<le> limit"
  defines "flt \<equiv> search_avatars search (avatar_cache st)"
  shows
    "(limit \<le> 200 \<longrightarrow>
        (\<exists>rs. get_all_avatars st skip limit search = Inr rs \<and>
              length rs \<le> nat limit \<and>
              length rs = min (nat limit) (length flt - nat skip) \<and>
              (\<forall>i < length rs. rs ! i = avatar_json (flt ! (nat skip + i))) \<and>
              (length flt \<le> nat skip \<longrightarrow> rs = []))) \<and>
     (limit \<le> 100 \<longrightarrow>
        (\<exists>rs. get_avatars st skip limit search = Inr rs \<and>
              length rs \<le> nat limit \<and>
              length rs = min (nat limit) (length flt - nat skip) \<and>
              (\<forall>i < length rs. rs ! i = avatar_json (flt ! (nat skip + i))) \<and>
              (length flt \<le> nat skip \<longrightarrow> rs = [])))"
proof -
  let ?rs = "map avatar_json (take (nat limit) (drop (nat skip) flt))"
  have a: "get_all_avatars st skip limit search = Inr ?rs" if "limit \<le> 200"
    using assms(1,2) that
    by (simp add: get_all_avatars_def Let_def flt_def list_handler_window)
  have b: "get_avatars st skip limit search = Inr ?rs" if "limit \<le> 100"
    using assms(1,2) that
    by (simp add: get_avatars_def Let_def flt_def list_handler_window)
  note w = window_props [where limit = "nat limit" and skip = "nat skip" and flt = flt]
  from a b w show ?thesis by blast
qed

text \<open>
  On the five records of \<open>FILENAMES\<close>: positions 3 and 4 are returned for \<open>skip = 3\<close>, and
  nothing for \<open>skip = 7\<close>.
\<close>

theorem list_returns_slice_witness:
  "(\<exists>rs. get_all_avatars load_avatars_v2 3 10 None = Inr rs \<and> length rs = 2 \<and>
         rs ! 0 = avatar_json (from_filename_v2 ''Adriana O'Sullivan.png'') \<and>
         rs ! 1 = avatar_json (from_filename_v2 ''Alec Whitten.png'')) \<and>
   get_avatars load_avatars_v2 7 10 None = Inr []"
proof -
  have c: "search_avatars None (avatar_cache load_avatars_v2) = map from_filename_v2 FILENAMES"
    by (simp add: search_avatars_def load_avatars_v2_def load_from_def Let_def)
  have len: "length FILENAMES = 5"
    by (simp add: FILENAMES_def)
  have n3: "FILENAMES ! 3 = ''Adriana O'Sullivan.png''" and n4: "FILENAMES ! 4 = ''Alec Whitten.png''"
    by (simp_all add: FILENAMES_def)
  from list_returns_slice [where st = load_avatars_v2 and skip = 3 and limit = 10 and search = None]
  obtain rs where r: "get_all_avatars load_avatars_v2 3 10 None = Inr rs"
    and l: "length rs = min (nat 10) (length (map from_filename_v2 FILENAMES) - nat 3)"
    and e: "\<forall>i < length rs. rs ! i = avatar_json (map from_filename_v2 FILENAMES ! (nat 3 + i))"
    unfolding c by auto
  from l have l2: "length rs = 2"
    by (simp add: len)
  from e l2 have "rs ! 0 = avatar_json (map from_filename_v2 FILENAMES ! (nat 3 + 0))"
    and "rs ! 1 = avatar_json (map from_filename_v2 FILENAMES ! (nat 3 + 1))"
    by simp_all
  then have e0: "rs ! 0 = avatar_json (from_filename_v2 ''Adriana O'Sullivan.png'')"
    and e1: "rs ! 1 = avatar_json (from_filename_v2 ''Alec Whitten.png'')"
    using n3 n4 by (simp_all add: len)
  from list_returns_slice [where st = load_avatars_v2 and skip = 7 and limit = 10 and search = None]
  obtain rs' where r': "get_avatars load_avatars_v2 7 10 None = Inr rs'"
    and z: "length (map from_filename_v2 FILENAMES) \<le> nat 7 \<longrightarrow> rs' = []"
    unfolding c by auto
  from z have "rs' = []"
    by (simp add: len)
  with r r' l2 e0 e1 show ?thesis by blast
qed

section \<open>The catalog of the first variant\<close>

lemma cache_v1: "avatar_cache load_avatars_v1 = map from_filename_v1 filenames"
  by (simp add: load_avatars_v1_def load_from_def Let_def)

lemma dict_v1: "avatar_dict load_avatars_v1 = index_by_name (map from_filename_v1 filenames)"
  by (simp add: load_avatars_v1_def load_from_def Let_def)

lemma lower_names_v1:
  "map (\<lambda>a. lower (name a)) (map from_filename_v1 filenames) =
     [
      ''abraham baker'', ''adem lane'', ''adil floyd'', ''adriana o'sullivan'',
      ''alec whitten'', ''alesha barry'', ''ali mahdi'', ''aliah lane'',
      ''alisa hester'', ''amanda lowery'', ''amelie bennett'', ''amelie laurent'',
      ''ammar foley'', ''anaiah whitten'', ''andi lane'', ''angelica wallace'',
      ''anita cruz'', ''ashton blackwell'', ''ashwin santiago'', ''aston hood'',
      ''ava bentley'', ''ava wright'', ''ayah wilkinson'', ''aysha becker'',
      ''bailey richards'', ''bec ferguson'', ''belle woods'', ''benedict doherty'',
      ''billie wright'', ''blake riley'', ''brianna ware'', ''byron robertson'',
      ''caitlyn king'', ''cameron yang'', ''candice wu'', ''clifford jennings'',
      ''cohen lozano'', ''courtney turner'', ''danyal lester'', ''demi wilkinson'',
      ''dillan nguyen'', ''drew cano'', ''eduard franz'', ''elena owens'',
      ''elisa nishikawa'', ''elsie roy'', ''erica wyatt'', ''ethan campbell'',
      ''ethan valdez'', ''eva bond'', ''eve leroy'', ''fergus gray'',
      ''fleur cook'', ''florence shaw'', ''frank whitaker'', ''franklin mays'',
      ''freya browning'', ''genevieve mclean'', ''harriet rojas'', ''harry bender'',
      ''hasan johns'', ''herbert fowler'', ''isla allison'', ''isobel carroll'',
      ''isobel fuller'', ''jackson reed'', ''jay shepard'', ''jaya willis'',
      ''jayden moss'', ''jessie meyton'', ''jonathan kelly'', ''jordan burgess'',
      ''joshua wilson'', ''julius vaughan'', ''kaden scott'', ''kaitlin hale'',
      ''kari rasmussen'', ''kate morrison'', ''katherine moss'', ''katy fuller'',
      ''kelly williams'', ''kelsey lowe'', ''koray okumus'', ''kyla clay'',
      ''lana steiner'', ''levi rocha'', ''leyton fields'', ''liam hood'',
      ''lily-rose chedjou'', ''loki bright'', ''lola sanders'', ''lori bryson'',
      ''lucy bond'', ''lulu meyers'', ''luqman anthony'', ''lyle kauffman'',
      ''maddison gillespie'', ''madeleine pitts'', ''marco gross'', ''marco kelly'',
      ''marvin robbins'', ''mathilde lewis'', ''maxwell tan'', ''mikey lawrence'',
      ''mollie hall'', ''molly vaughan'', ''nala goins'', ''natali craig'',
      ''nic fassbender'', ''nicola harris'', ''nicolas trevino'', ''nicolas wang'',
      ''nikolas gibbons'', ''noah pierre'', ''noel baldwin'', ''olivia rhye'',
      ''olly schroeder'', ''orlando diggs'', ''owen garcia'', ''owen harding'',
      ''phoenix baker'', ''pippa wilkinson'', ''priya shepard'', ''rachael strong'',
      ''rayhan zua'', ''rene wells'', ''rhea levine'', ''rhianna shepard'',
      ''riley o'moore'', ''rory huff'', ''rosalee melvin'', ''sally mason'',
      ''sarah page'', ''scott clayton'', ''sienna hewitt'', ''sophia perez'',
      ''stefan sears'', ''youssef roberson'', ''zahir mays'', ''zahra christensen'',
      ''zaid schwartz'', ''zara bush'', ''zaynab donnelly'', ''zuzanna burke''
     ]"
  by code_simp

lemma filter_by_key:
  "filter (\<lambda>a. Q (key a)) xs = map fst (filter (\<lambda>p. Q (snd p)) (zip xs (map key xs)))"
  by (induction xs) simp_all

lemma find_by_key:
  "List.find (\<lambda>a. Q (key a)) xs =
     map_option fst (List.find (\<lambda>p. Q (snd p)) (zip xs (map key xs)))"
  by (induction xs) simp_all

lemma search_ana_v1:
  "filter (\<lambda>a. contains ''ana'' (lower (name a))) (map from_filename_v1 filenames) =
     [from_filename_v1 ''Adriana O'Sullivan.png'', from_filename_v1 ''Anaiah Whitten.png'',
      from_filename_v1 ''Lana Steiner.png'']"
  apply (subst filter_by_key [where Q = "contains ''ana''" and key = "\<lambda>a. lower (name a)"])
  apply (subst lower_names_v1)
  apply (simp add: filenames_def)
  done

lemma search_lane_v1:
  "filter (\<lambda>a. contains ''lane'' (lower (name a))) (map from_filename_v1 filenames) =
     [from_filename_v1 ''Adem Lane.png'', from_filename_v1 ''Aliah Lane.png'',
      from_filename_v1 ''Andi Lane.png'']"
  apply (subst filter_by_key [where Q = "contains ''lane''" and key = "\<lambda>a. lower (name a)"])
  apply (subst lower_names_v1)
  apply (simp add: filenames_def)
  done

lemma index_miss:
  "index_by_name cache k = None \<longleftrightarrow> k \<notin> set (map (\<lambda>a. lower (name a)) cache)"
  by (auto simp: index_by_name_find find_None_iff)

lemma dict_lane_v1: "avatar_dict load_avatars_v1 ''lane'' = None"
  unfolding dict_v1 index_miss lower_names_v1 by simp

lemma dict_olivia_v1:
  "avatar_dict load_avatars_v1 ''olivia rhye'' = Some (from_filename_v1 ''Olivia Rhye.png'')"
  unfolding dict_v1 index_by_name_find
  apply (subst find_by_key [where Q = "\<lambda>k. k = ''olivia rhye''" and key = "\<lambda>a. lower (name a)"])
  apply (simp only: rev_map [symmetric] lower_names_v1)
  apply (simp add: filenames_def)
  done

lemma search_avatars_Some:
  "search_avatars (Some s) cache = filter (\<lambda>a. sublist (lower s) (lower (name a))) cache"
  by (simp add: search_avatars_def Let_def contains_sublist lower_def)

lemma lower_ana: "lower ''ana'' = ''ana''"
  by (simp add: lower_def lower_chr_def)

lemma list_ana_v1:
  "get_all_avatars load_avatars_v1 0 100 (Some ''ana'') =
     Inr [avatar_json (from_filename_v1 ''Adriana O'Sullivan.png''),
          avatar_json (from_filename_v1 ''Anaiah Whitten.png''),
          avatar_json (from_filename_v1 ''Lana Steiner.png'')]"
proof -
  have "search_avatars (Some ''ana'') (avatar_cache load_avatars_v1) =
          [from_filename_v1 ''Adriana O'Sullivan.png'', from_filename_v1 ''Anaiah Whitten.png'',
           from_filename_v1 ''Lana Steiner.png'']"
    by (simp add: search_avatars_def Let_def lower_ana cache_v1 search_ana_v1)
  then show ?thesis
    by (simp add: get_all_avatars_def Let_def py_slice_def slice_index_def)
qed

lemma names_of_ana_v1:
  "name (from_filename_v1 ''Adriana O'Sullivan.png'') = ''Adriana O'Sullivan'' \<and>
   name (from_filename_v1 ''Anaiah Whitten.png'') = ''Anaiah Whitten'' \<and>
   name (from_filename_v1 ''Lana Steiner.png'') = ''Lana Steiner'' \<and>
   name (from_filename_v1 ''Amanda Lowery.png'') = ''Amanda Lowery'' \<and>
   name (from_filename_v1 ''Byron Robertson.png'') = ''Byron Robertson''"
  by (simp add: from_filename_v1_def)

lemma in_cache_v1:
  "from_filename_v1 ''Amanda Lowery.png'' \<in> set (avatar_cache load_avatars_v1) \<and>
   from_filename_v1 ''Byron Robertson.png'' \<in> set (avatar_cache load_avatars_v1)"
  by (simp add: cache_v1 filenames_def)

section \<open>Searching\<close>

text \<open>
  Claim C2, as stated, fails on the catalog of lines 52-101: the name \<open>Amanda Lowery\<close> does
  not contain \<open>ana\<close> in any case (its substrings of length three around the letters are
  \<open>ama\<close>, \<open>man\<close>, \<open>and\<close>, \<open>nda\<close>), so the record is in the catalog but not in the result of
  the search, which holds exactly three records.
\<close>

theorem search_ana_excludes_amanda:
  "from_filename_v1 ''Amanda Lowery.png'' \<in> set (avatar_cache load_avatars_v1) \<and>
   name (from_filename_v1 ''Amanda Lowery.png'') = ''Amanda Lowery'' \<and>
   \<not> contains (lower ''ana'') (lower ''Amanda Lowery'') \<and>
   get_all_avatars load_avatars_v1 0 100 (Some ''ana'') =
     Inr [avatar_json (from_filename_v1 ''Adriana O'Sullivan.png''),
          avatar_json (from_filename_v1 ''Anaiah Whitten.png''),
          avatar_json (from_filename_v1 ''Lana Steiner.png'')] \<and>
   avatar_json (from_filename_v1 ''Amanda Lowery.png'') \<notin>
     set [avatar_json (from_filename_v1 ''Adriana O'Sullivan.png''),
          avatar_json (from_filename_v1 ''Anaiah Whitten.png''),
          avatar_json (from_filename_v1 ''Lana Steiner.png'')]"
proof -
  have "\<not> contains (lower ''ana'') (lower ''Amanda Lowery'')"
    by (simp add: lower_def lower_chr_def)
  moreover have "avatar_json (from_filename_v1 ''Amanda Lowery.png'') \<notin>
     set [avatar_json (from_filename_v1 ''Adriana O'Sullivan.png''),
          avatar_json (from_filename_v1 ''Anaiah Whitten.png''),
          avatar_json (from_filename_v1 ''Lana Steiner.png'')]"
    using names_of_ana_v1 by (simp add: avatar_json_def)
  ultimately show ?thesis
    using in_cache_v1 names_of_ana_v1 list_ana_v1 by blast
qed

text \<open>
  Claim C2, amended. The search parameter keeps, in catalog order, exactly the records whose
  lowercased name has the lowercased search string as a contiguous substring; without a
  search string the catalog is returned whole. Over the catalog of lines 52-101 the search
  \<open>ana\<close> returns the records named \<open>Adriana O'Sullivan\<close>, \<open>Anaiah Whitten\<close> and
  \<open>Lana Steiner\<close>, in this order, and so excludes \<open>Byron Robertson\<close> and \<open>Amanda Lowery\<close>.
\<close>

theorem search_is_case_insensitive_substring_filter:
  "search_avatars (Some s) cache = filter (\<lambda>a. sublist (lower s) (lower (name a))) cache \<and>
   search_avatars None cache = cache \<and>
   subseq (search_avatars search cache) cache \<and>
   get_all_avatars load_avatars_v1 0 100 (Some ''ana'') =
     Inr [avatar_json (from_filename_v1 ''Adriana O'Sullivan.png''),
          avatar_json (from_filename_v1 ''Anaiah Whitten.png''),
          avatar_json (from_filename_v1 ''Lana Steiner.png'')] \<and>
   map name [from_filename_v1 ''Adriana O'Sullivan.png'', from_filename_v1 ''Anaiah Whitten.png'',
             from_filename_v1 ''Lana Steiner.png''] =
     [''Adriana O'Sullivan'', ''Anaiah Whitten'', ''Lana Steiner''] \<and>
   name (from_filename_v1 ''Byron Robertson.png'') = ''Byron Robertson'' \<and>
   from_filename_v1 ''Byron Robertson.png'' \<in> set (avatar_cache load_avatars_v1)"
proof -
  have "subseq (search_avatars search cache) cache"
    by (cases search) (simp_all add: search_avatars_def Let_def)
  moreover have "search_avatars None cache = cache"
    by (simp add: search_avatars_def)
  ultimately show ?thesis
    using search_avatars_Some [of s cache] list_ana_v1 names_of_ana_v1 in_cache_v1
    by simp
qed

lemma first_match_find:
  "(case filter P xs of [] \<Rightarrow> None | m # _ \<Rightarrow> Some m) = List.find P xs"
  by (induction xs) simp_all

lemma get_avatar_same: "get_avatar st n = get_avatar_by_name st n"
  by (simp add: get_avatar_def get_avatar_by_name_def)

lemma get_avatar_by_name_cases:
  "get_avatar_by_name st n =
     (case avatar_dict st (lower n) of
        Some a \<Rightarrow> Inr (avatar_json a)
      | None \<Rightarrow>
          (case List.find (\<lambda>a. sublist (lower n) (lower (name a))) (avatar_cache st) of
             Some a \<Rightarrow> Inr (avatar_json a)
           | None \<Rightarrow>
               Inl (HTTPException 404
                     (Some (''Avatar '' @ [CHR 0x27] @ n @ [CHR 0x27] @ '' not found'')))))"
  unfolding get_avatar_by_name_def Let_def first_match_find contains_sublist
  by (simp split: option.splits)

lemma lower_queries:
  "lower ''OLIVIA RHYE'' = ''olivia rhye'' \<and> lower ''Lane'' = ''lane'' \<and>
   lower ''doesnotexist'' = ''doesnotexist''"
  by (simp add: lower_def lower_chr_def)

lemma search_doesnotexist_v1:
  "filter (\<lambda>a. contains ''doesnotexist'' (lower (name a))) (map from_filename_v1 filenames) = []"
  apply (subst filter_by_key [where Q = "contains ''doesnotexist''" and key = "\<lambda>a. lower (name a)"])
  apply (subst lower_names_v1)
  apply (simp add: filenames_def)
  done

lemma dict_doesnotexist_v1: "avatar_dict load_avatars_v1 ''doesnotexist'' = None"
  unfolding dict_v1 index_miss lower_names_v1 by simp

lemma by_name_olivia_v1:
  "get_avatar_by_name load_avatars_v1 ''OLIVIA RHYE'' =
     Inr (avatar_json (from_filename_v1 ''Olivia Rhye.png''))"
  by (simp add: get_avatar_by_name_def Let_def lower_queries dict_olivia_v1)

lemma by_name_lane_v1:
  "get_avatar_by_name load_avatars_v1 ''Lane'' =
     Inr (avatar_json (from_filename_v1 ''Adem Lane.png''))"
  by (simp add: get_avatar_by_name_def Let_def lower_queries dict_lane_v1 cache_v1 search_lane_v1)

lemma by_name_doesnotexist_v1:
  "get_avatar_by_name load_avatars_v1 ''doesnotexist'' =
     Inl (HTTPException 404 (Some ''Avatar 'doesnotexist' not found''))"
  by (simp add: get_avatar_by_name_def Let_def lower_queries dict_doesnotexist_v1 cache_v1
      search_doesnotexist_v1)

lemma first_lane_v1:
  "List.find (\<lambda>a. contains ''lane'' (lower (name a))) (avatar_cache load_avatars_v1) =
     Some (from_filename_v1 ''Adem Lane.png'')"
  unfolding first_match_find [symmetric] cache_v1 search_lane_v1 by simp

lemma names_olivia_lane_v1:
  "name (from_filename_v1 ''Olivia Rhye.png'') = ''Olivia Rhye'' \<and>
   name (from_filename_v1 ''Adem Lane.png'') = ''Adem Lane''"
  by (simp add: from_filename_v1_def)

section \<open>Lookup by name\<close>

text \<open>
  Claim C3. On a catalog built at startup, \<open>get_avatar_by_name\<close> (and \<open>get_avatar\<close>, which
  is the same function) first looks for a record whose lowercased name equals the lowercased
  query, taking the last such record of the list, which is the one the index holds; only
  when there is none it takes the first record, in catalog order, whose lowercased name
  contains the lowercased query; and when there is none either it raises the 404 whose
  detail is \<open>Avatar '<name>' not found\<close>. On the catalog of lines 52-101 the query
  \<open>OLIVIA RHYE\<close> returns the record named \<open>Olivia Rhye\<close>, the query \<open>Lane\<close> returns the
  first record whose name contains \<open>lane\<close>, named \<open>Adem Lane\<close>, and the query
  \<open>doesnotexist\<close> raises the 404.
\<close>

theorem get_by_name_exact_then_partial:
  "get_avatar_by_name (load_from build fs) n =
     (case List.find (\<lambda>a. lower (name a) = lower n) (rev (map build fs)) of
        Some a \<Rightarrow> Inr (avatar_json a)
      | None \<Rightarrow>
          (case List.find (\<lambda>a. sublist (lower n) (lower (name a))) (map build fs) of
             Some a \<Rightarrow> Inr (avatar_json a)
           | None \<Rightarrow>
               Inl (HTTPException 404
                     (Some (''Avatar '' @ [CHR 0x27] @ n @ [CHR 0x27] @ '' not found''))))) \<and>
   get_avatar (load_from build fs) n = get_avatar_by_name (load_from build fs) n \<and>
   get_avatar_by_name load_avatars_v1 ''OLIVIA RHYE'' =
     Inr (avatar_json (from_filename_v1 ''Olivia Rhye.png'')) \<and>
   name (from_filename_v1 ''Olivia Rhye.png'') = ''Olivia Rhye'' \<and>
   get_avatar_by_name load_avatars_v1 ''Lane'' =
     Inr (avatar_json (from_filename_v1 ''Adem Lane.png'')) \<and>
   List.find (\<lambda>a. contains ''lane'' (lower (name a))) (avatar_cache load_avatars_v1) =
     Some (from_filename_v1 ''Adem Lane.png'') \<and>
   name (from_filename_v1 ''Adem Lane.png'') = ''Adem Lane'' \<and>
   get_avatar_by_name load_avatars_v1 ''doesnotexist'' =
     Inl (HTTPException 404 (Some ''Avatar 'doesnotexist' not found''))"
proof -
  have c: "avatar_cache (load_from build fs) = map build fs"
    and d: "avatar_dict (load_from build fs) = index_by_name (map build fs)"
    by (simp_all add: load_from_def Let_def)
  have "get_avatar_by_name (load_from build fs) n =
     (case List.find (\<lambda>a. lower (name a) = lower n) (rev (map build fs)) of
        Some a \<Rightarrow> Inr (avatar_json a)
      | None \<Rightarrow>
          (case List.find (\<lambda>a. sublist (lower n) (lower (name a))) (map build fs) of
             Some a \<Rightarrow> Inr (avatar_json a)
           | None \<Rightarrow>
               Inl (HTTPException 404
                     (Some (''Avatar '' @ [CHR 0x27] @ n @ [CHR 0x27] @ '' not found'')))))"
    unfolding get_avatar_by_name_cases c d index_by_name_find ..
  then show ?thesis
    using get_avatar_same [of "load_from build fs" n] by_name_olivia_v1 by_name_lane_v1
      by_name_doesnotexist_v1 first_lane_v1 names_olivia_lane_v1
    by simp
qed

section \<open>The image proxy\<close>

lemma get_avatar_image_miss:
  "avatar_dict st (lower n) = None \<Longrightarrow> get_avatar_image st fetch n = Inl (HTTPException 404 (Some ''Not Found''))"
  by (simp add: get_avatar_image_def)

lemma get_avatar_image_hit:
  "avatar_dict st (lower n) = Some a \<Longrightarrow> fetch (imageurl a) = Inr r \<Longrightarrow>
     get_avatar_image st fetch n =
       Inr \<lparr> content = upstream_content r, media_type = ''image/png'' \<rparr>"
  by (simp add: get_avatar_image_def)

lemma dict_lane_v2: "avatar_dict load_avatars_v2 (lower ''Lane'') = None"
  by (simp add: load_avatars_v2_def load_from_def Let_def FILENAMES_def index_by_name_def
      from_filename_v2_def lower_def lower_chr_def)

text \<open>
  Claim C7, as stated, fails on a miss: \<open>raise HTTPException(status_code=404)\<close> passes no
  detail, and the exception that is raised then carries the phrase of its status, so the
  404 has the detail \<open>Not Found\<close> and its reply a body. \<open>Lane\<close> is no key of the index of
  \<open>FILENAMES\<close>.
\<close>

theorem image_miss_has_detail:
  "get_avatar_image load_avatars_v2 (\<lambda>url. Inl ''ConnectError'') ''Lane'' =
     Inl (HTTPException 404 (Some ''Not Found'')) \<and>
   detail (HTTPException 404 (Some ''Not Found'')) = Some ''Not Found'' \<and>
   get_avatar_image load_avatars_v2 (\<lambda>url. Inl ''ConnectError'') ''Lane'' \<noteq>
     Inl (HTTPException 404 None)"
  by (simp add: get_avatar_image_def dict_lane_v2)

text \<open>
  Claim C7, amended. The image proxy looks the lowercased name up in the index and nowhere
  else: its result does not depend on the ordered list, so there is no partial match. On a
  miss it raises a 404 whose detail is the status phrase \<open>Not Found\<close>, the handler giving
  none of its own; on a hit, when the fetch returns, it answers with the fetched body and
  the media type \<open>image/png\<close>, whatever content type and status the remote server sent.
\<close>

theorem image_proxy_exact_lookup_only:
  "get_avatar_image (st\<lparr>avatar_cache := other\<rparr>) fetch n = get_avatar_image st fetch n \<and>
   (avatar_dict st (lower n) = None \<longrightarrow>
      get_avatar_image st fetch n = Inl (HTTPException 404 (Some ''Not Found''))) \<and>
   (\<forall>a r. avatar_dict st (lower n) = Some a \<and> fetch (imageurl a) = Inr r \<longrightarrow>
      get_avatar_image st fetch n =
        Inr \<lparr> content = upstream_content r, media_type = ''image/png'' \<rparr>)"
  using get_avatar_image_miss [of st n fetch] get_avatar_image_hit [of st n _ fetch]
  by (simp add: get_avatar_image_def)

text \<open>
  On the catalog of \<open>FILENAMES\<close>, with a remote server that answers every request with an
  HTML page: \<open>ADEM LANE\<close> is served as \<open>image/png\<close>, and \<open>Lane\<close> is a 404.
\<close>

theorem image_proxy_exact_lookup_only_witness:
  "get_avatar_image load_avatars_v2
     (\<lambda>url. Inr \<lparr> upstream_status = 200, upstream_content_type = ''text/html'',
                   upstream_content = ''<html/>'' \<rparr>) ''ADEM LANE'' =
     Inr \<lparr> content = ''<html/>'', media_type = ''image/png'' \<rparr> \<and>
   get_avatar_image load_avatars_v2
     (\<lambda>url. Inr \<lparr> upstream_status = 200, upstream_content_type = ''text/html'',
                   upstream_content = ''<html/>'' \<rparr>) ''Lane'' =
     Inl (HTTPException 404 (Some ''Not Found''))"
proof -
  let ?fetch = "\<lambda>url :: string. (Inr \<lparr> upstream_status = 200, upstream_content_type = ''text/html'',
                   upstream_content = ''<html/>'' \<rparr> :: string + upstream)"
  have hit: "avatar_dict load_avatars_v2 (lower ''ADEM LANE'') = Some (from_filename_v2 ''Adem Lane.png'')"
    by (simp add: load_avatars_v2_def load_from_def Let_def FILENAMES_def index_by_name_def
        from_filename_v2_def lower_def lower_chr_def)
  have miss: "avatar_dict load_avatars_v2 (lower ''Lane'') = None"
    by (simp add: load_avatars_v2_def load_from_def Let_def FILENAMES_def index_by_name_def
        from_filename_v2_def lower_def lower_chr_def)
  note t = image_proxy_exact_lookup_only [where st = load_avatars_v2 and fetch = ?fetch]
  have "get_avatar_image load_avatars_v2 ?fetch ''Lane'' = Inl (HTTPException 404 (Some ''Not Found''))"
    using t [where n = "''Lane''"] miss by blast
  moreover have "get_avatar_image load_avatars_v2 ?fetch ''ADEM LANE'' =
      Inr \<lparr> content = ''<html/>'', media_type = ''image/png'' \<rparr>"
    using t [where n = "''ADEM LANE''"] hit by simp
  ultimately show ?thesis by simp
qed

lemma by_name_partial_hit:
  assumes "avatar_dict st (lower n) = None"
    and "a \<in> set (avatar_cache st)" and "sublist (lower n) (lower (name a))"
  shows "\<exists>b. b \<in> set (avatar_cache st) \<and> sublist (lower n) (lower (name b)) \<and>
             get_avatar_by_name st n = Inr (avatar_json b)"
proof -
  from assms(2,3) obtain b
    where b: "List.find (\<lambda>a. sublist (lower n) (lower (name a))) (avatar_cache st) = Some b"
    by (cases "List.find (\<lambda>a. sublist (lower n) (lower (name a))) (avatar_cache st)")
       (auto simp: find_None_iff)
  then have "b \<in> set (avatar_cache st)" and "sublist (lower n) (lower (name b))"
    by (auto simp: find_Some_iff)
  moreover have "get_avatar_by_name st n = Inr (avatar_json b)"
    by (simp add: get_avatar_by_name_cases assms(1) b)
  ultimately show ?thesis by blast
qed

section \<open>Lookup by name against the image proxy\<close>

text \<open>
  Claim C10. A name that is no key of the index but is contained, case-insensitively, in the
  name of a record of the list, is answered with a record by \<open>get_avatar_by_name\<close> and with
  the 404 by \<open>get_avatar_image\<close>. \<open>Lane\<close> is such a name on the catalog of lines 52-101.
\<close>

theorem partial_match_record_but_image_404:
  "(\<forall>st fetch n a.
      avatar_dict st (lower n) = None \<and> a \<in> set (avatar_cache st) \<and>
      sublist (lower n) (lower (name a)) \<longrightarrow>
      (\<exists>b. b \<in> set (avatar_cache st) \<and> sublist (lower n) (lower (name b)) \<and>
           get_avatar_by_name st n = Inr (avatar_json b)) \<and>
      get_avatar_image st fetch n = Inl (HTTPException 404 (Some ''Not Found''))) \<and>
   get_avatar_by_name load_avatars_v1 ''Lane'' =
     Inr (avatar_json (from_filename_v1 ''Adem Lane.png'')) \<and>
   (\<forall>fetch. get_avatar_image load_avatars_v1 fetch ''Lane'' = Inl (HTTPException 404 (Some ''Not Found'')))"
proof -
  have "get_avatar_image load_avatars_v1 fetch ''Lane'' = Inl (HTTPException 404 (Some ''Not Found''))" for fetch
    by (rule get_avatar_image_miss) (simp add: lower_queries dict_lane_v1)
  then show ?thesis
    using by_name_partial_hit get_avatar_image_miss by_name_lane_v1 by blast
qed

text \<open>
  On the catalog of \<open>FILENAMES\<close> the name \<open>floyd\<close> is no key of the index and is contained
  in the name of the third record.
\<close>

theorem partial_match_record_but_image_404_witness:
  "get_avatar_by_name load_avatars_v2 ''floyd'' = Inr (avatar_json (from_filename_v2 ''Adil Floyd.png'')) \<and>
   get_avatar_image load_avatars_v2 (\<lambda>url. Inl ''unreachable'') ''floyd'' =
     Inl (HTTPException 404 (Some ''Not Found''))"
proof -
  let ?a = "from_filename_v2 ''Adil Floyd.png''"
  let ?fetch = "\<lambda>url :: string. (Inl ''unreachable'' :: string + upstream)"
  have miss: "avatar_dict load_avatars_v2 (lower ''floyd'') = None"
    by (simp add: load_avatars_v2_def load_from_def Let_def FILENAMES_def index_by_name_def
        from_filename_v2_def lower_def lower_chr_def)
  have mem: "?a \<in> set (avatar_cache load_avatars_v2)"
    by (simp add: load_avatars_v2_def load_from_def Let_def FILENAMES_def)
  have sub: "sublist (lower ''floyd'') (lower (name ?a))"
    unfolding contains_sublist [symmetric]
    by (simp add: from_filename_v2_def lower_def lower_chr_def)
  from partial_match_record_but_image_404 miss mem sub
  have img: "get_avatar_image load_avatars_v2 ?fetch ''floyd'' = Inl (HTTPException 404 (Some ''Not Found''))"
    by blast
  have "get_avatar_by_name load_avatars_v2 ''floyd'' = Inr (avatar_json ?a)"
    by (simp add: get_avatar_by_name_def Let_def miss)
       (simp add: load_avatars_v2_def load_from_def Let_def FILENAMES_def
          from_filename_v2_def lower_def lower_chr_def)
  with img show ?thesis by simp
qed

section \<open>Random sampling\<close>

lemma is_draw_length: "is_draw draw n \<Longrightarrow> length draw = n"
  unfolding is_draw_def using distinct_card [of draw] by simp

lemma avatar_json_inj: "inj avatar_json"
  by (rule injI) (simp add: avatar_json_def)

lemma random_sample_picks:
  assumes "is_draw draw (length population)" and "0 \<le> k" and "k \<le> int (length population)"
  shows "random_sample draw population k = Some (map (\<lambda>i. population ! i) (take (nat k) draw)) \<and>
         length (take (nat k) draw) = nat k \<and> distinct (take (nat k) draw) \<and>
         set (take (nat k) draw) \<subseteq> {..<length population}"
proof -
  have "length draw = length population"
    using assms(1) by (rule is_draw_length)
  moreover have "distinct (take (nat k) draw)"
    using assms(1) by (simp add: is_draw_def)
  moreover have "set (take (nat k) draw) \<subseteq> {..<length population}"
    using assms(1) set_take_subset [of "nat k" draw] by (simp add: is_draw_def)
  ultimately show ?thesis
    using assms(2,3) by (simp add: random_sample_def)
qed

lemma get_random_avatars_sample:
  assumes "is_draw draw (length (avatar_cache st))" and "1 \<le> count"
  defines "k \<equiv> min (nat (min count 50)) (length (avatar_cache st))"
  shows "get_random_avatars st draw count =
           Inr (map (\<lambda>i. avatar_json (avatar_cache st ! i)) (take k draw)) \<and>
         length (take k draw) = k \<and> distinct (take k draw) \<and>
         set (take k draw) \<subseteq> {..<length (avatar_cache st)}"
proof -
  let ?c = "if count > 50 then 50 else count"
  let ?k = "min ?c (int (length (avatar_cache st)))"
  have k: "nat ?k = k"
    using assms(2) by (auto simp: k_def min_def)
  have "0 \<le> ?k" and "?k \<le> int (length (avatar_cache st))"
    using assms(2) by auto
  from random_sample_picks [OF assms(1) this] k
  show ?thesis
    using assms(2) by (simp add: get_random_avatars_def Let_def comp_def)
qed

text \<open>
  Claim C4. \<open>get_random_avatars\<close> refuses a count below 1 with the 400 error. Otherwise, for
  any choice of the generator, it returns the response forms of the records at
  \<open>min (min count 50) (length catalog)\<close> positions of the catalog, no position twice: a
  count above 50 counts as 50, the records are pairwise different when those of the catalog
  are, and an empty catalog gives the empty list. For a count of 1000 the result has
  \<open>min 50 (length catalog)\<close> records.
\<close>

theorem random_sample_clamped_distinct:
  assumes "is_draw draw (length (avatar_cache st))"
  shows
    "(count < 1 \<longrightarrow>
        get_random_avatars st draw count =
          Inl (HTTPException 400 (Some ''Count must be at least 1''))) \<and>
     (1 \<le> count \<longrightarrow>
        (\<exists>picks rs.
           get_random_avatars st draw count = Inr rs \<and>
           rs = map (\<lambda>i. avatar_json (avatar_cache st ! i)) picks \<and>
           length rs = min (nat (min count 50)) (length (avatar_cache st)) \<and>
           distinct picks \<and> set picks \<subseteq> {..<length (avatar_cache st)} \<and>
           (distinct (avatar_cache st) \<longrightarrow> distinct rs) \<and>
           (avatar_cache st = [] \<longrightarrow> rs = []) \<and>
           (count = 1000 \<longrightarrow> length rs = min 50 (length (avatar_cache st)))))"
proof -
  have low: "get_random_avatars st draw count =
      Inl (HTTPException 400 (Some ''Count must be at least 1''))" if "count < 1"
    using that by (simp add: get_random_avatars_def)
  have high: "\<exists>picks rs.
           get_random_avatars st draw count = Inr rs \<and>
           rs = map (\<lambda>i. avatar_json (avatar_cache st ! i)) picks \<and>
           length rs = min (nat (min count 50)) (length (avatar_cache st)) \<and>
           distinct picks \<and> set picks \<subseteq> {..<length (avatar_cache st)} \<and>
           (distinct (avatar_cache st) \<longrightarrow> distinct rs) \<and>
           (avatar_cache st = [] \<longrightarrow> rs = []) \<and>
           (count = 1000 \<longrightarrow> length rs = min 50 (length (avatar_cache st)))" if c: "1 \<le> count"
  proof -
    define k where "k = min (nat (min count 50)) (length (avatar_cache st))"
    define picks where "picks = take k draw"
    define rs where "rs = map (\<lambda>i. avatar_json (avatar_cache st ! i)) picks"
    from get_random_avatars_sample [OF assms c]
    have r: "get_random_avatars st draw count = Inr rs"
      and l: "length picks = k" and d: "distinct picks"
      and s: "set picks \<subseteq> {..<length (avatar_cache st)}"
      by (simp_all add: rs_def picks_def k_def)
    have len: "length rs = min (nat (min count 50)) (length (avatar_cache st))"
      by (simp add: rs_def l k_def)
    have dist: "distinct rs" if dc: "distinct (avatar_cache st)"
    proof -
      have "inj_on (\<lambda>i. avatar_cache st ! i) (set picks)"
      proof (rule inj_onI)
        fix x y assume "x \<in> set picks" "y \<in> set picks"
          and e: "avatar_cache st ! x = avatar_cache st ! y"
        with s have "x < length (avatar_cache st)" "y < length (avatar_cache st)"
          by auto
        with dc e show "x = y"
          by (simp add: nth_eq_iff_index_eq)
      qed
      then have "distinct (map (\<lambda>i. avatar_cache st ! i) picks)"
        using d by (simp add: distinct_map)
      then have "distinct (map avatar_json (map (\<lambda>i. avatar_cache st ! i) picks))"
        using avatar_json_inj by (simp add: distinct_map inj_on_def inj_def)
      then show ?thesis by (simp add: rs_def comp_def)
    qed
    have empty: "rs = []" if "avatar_cache st = []"
      using len that by simp
    have thousand: "length rs = min 50 (length (avatar_cache st))" if "count = 1000"
      using len that by simp
    from r len d s dist empty thousand show ?thesis
      unfolding rs_def by blast
  qed
  from low high show ?thesis by blast
qed

text \<open>
  On the five records of \<open>FILENAMES\<close>, with the generator choosing the positions in the order
  3, 0, 4, 1, 2: a count of 2 returns the records at positions 3 and 0, a count of 1000
  returns all five records, and a count of 0 is refused.
\<close>

theorem random_sample_clamped_distinct_witness:
  "get_random_avatars load_avatars_v2 [3, 0, 4, 1, 2] 2 =
     Inr [avatar_json (from_filename_v2 ''Adriana O'Sullivan.png''),
          avatar_json (from_filename_v2 ''Abraham Baker.png'')] \<and>
   (\<exists>rs. get_random_avatars load_avatars_v2 [3, 0, 4, 1, 2] 1000 = Inr rs \<and> length rs = 5) \<and>
   get_random_avatars load_avatars_v2 [3, 0, 4, 1, 2] 0 =
     Inl (HTTPException 400 (Some ''Count must be at least 1''))"
proof -
  have c: "avatar_cache load_avatars_v2 = map from_filename_v2 FILENAMES"
    by (simp add: load_avatars_v2_def load_from_def Let_def)
  have len: "length (avatar_cache load_avatars_v2) = 5"
    by (simp add: c FILENAMES_def)
  have "{..<5::nat} = {0, 1, 2, 3, 4}"
    by auto
  then have draw: "is_draw [3, 0, 4, 1, 2] (length (avatar_cache load_avatars_v2))"
    unfolding len is_draw_def by auto
  note t = random_sample_clamped_distinct [OF draw]
  from t [of 0] have zero: "get_random_avatars load_avatars_v2 [3, 0, 4, 1, 2] 0 =
     Inl (HTTPException 400 (Some ''Count must be at least 1''))"
    by simp
  from t [of 1000] obtain rs
    where "get_random_avatars load_avatars_v2 [3, 0, 4, 1, 2] 1000 = Inr rs"
      and "length rs = min 50 (length (avatar_cache load_avatars_v2))"
    by auto
  then have big: "\<exists>rs. get_random_avatars load_avatars_v2 [3, 0, 4, 1, 2] 1000 = Inr rs \<and> length rs = 5"
    by (simp add: len)
  have two: "get_random_avatars load_avatars_v2 [3, 0, 4, 1, 2] 2 =
     Inr [avatar_json (from_filename_v2 ''Adriana O'Sullivan.png''),
          avatar_json (from_filename_v2 ''Abraham Baker.png'')]"
    by (simp add: get_random_avatars_def random_sample_def Let_def c FILENAMES_def)
  from two big zero show ?thesis by blast
qed

section \<open>Statistics\<close>

lemma split_chr_absent: "c \<notin> set s \<Longrightarrow> split_chr c s = [s]"
  by (induction s) auto

lemma split_chr_two: "c \<in> set s \<Longrightarrow> \<exists>p q qs. split_chr c s = p # q # qs"
proof (induction s)
  case Nil
  then show ?case by simp
next
  case (Cons x s)
  show ?case
  proof (cases "x = c")
    case True
    then show ?thesis
      using split_chr_not_Nil [of c s] by (cases "split_chr c s") auto
  next
    case False
    with Cons.prems have "c \<in> set s" by simp
    from Cons.IH [OF this] False show ?thesis by auto
  qed
qed

lemma last_split_chr_Cons:
  "c \<in> set s \<Longrightarrow> last (split_chr c (x # s)) = last (split_chr c s)"
  using split_chr_two [of c s] by auto

lemma last_split_chr_append:
  "last (split_chr c (xs @ c # ys)) = last (split_chr c ys)"
proof (induction xs)
  case Nil
  then show ?case using split_chr_not_Nil [of c ys] by simp
next
  case (Cons x xs)
  have "c \<in> set (xs @ c # ys)" by simp
  from last_split_chr_Cons [OF this] Cons.IH show ?case by simp
qed

lemma last_split_suffix:
  assumes "c \<notin> set ys"
  shows "last (split_chr c (xs @ c # ys)) = ys"
  using assms by (simp add: last_split_chr_append split_chr_absent)









section \<open>The shape of response records\<close>

lemma last_split_chr_segment:
  "c \<notin> set (last (split_chr c s)) \<and>
   (\<exists>pre. s = pre @ last (split_chr c s) \<and> (pre \<noteq> [] \<longrightarrow> last pre = c))"
proof (induction s)
  case Nil
  then show ?case by simp
next
  case (Cons x s)
  from Cons.IH obtain pre
    where n: "c \<notin> set (last (split_chr c s))"
      and s: "s = pre @ last (split_chr c s)" and p: "pre \<noteq> [] \<longrightarrow> last pre = c"
    by blast
  show ?case
  proof (cases "c \<in> set s")
    case True
    then have l: "last (split_chr c (x # s)) = last (split_chr c s)"
      by (rule last_split_chr_Cons)
    from True n s have "pre \<noteq> []"
      by auto
    with p s have "x # s = (x # pre) @ last (split_chr c s) \<and> last (x # pre) = c"
      by simp
    with n l show ?thesis
      by (metis list.distinct(1))
  next
    case False
    show ?thesis
    proof (cases "x = c")
      case True
      with False have "split_chr c (x # s) = [[], s]"
        by (simp add: split_chr_absent)
      with False True show ?thesis
        by (auto intro: exI [of _ "[c]"])
    next
      case nx: False
      with False have "split_chr c (x # s) = [x # s]"
        by (simp add: split_chr_absent)
      with False nx show ?thesis
        by (auto intro: exI [of _ "[]"])
    qed
  qed
qed

lemma list_handlers_emit_json:
  "get_all_avatars st skip limit search = Inr rs \<Longrightarrow> set rs \<subseteq> range avatar_json"
  "get_avatars st skip limit search = Inr rs \<Longrightarrow> set rs \<subseteq> range avatar_json"
  "get_random_avatars st draw count = Inr rs \<Longrightarrow> set rs \<subseteq> range avatar_json"
  by (auto simp: get_all_avatars_def get_avatars_def get_random_avatars_def Let_def
      split: if_splits option.splits)

lemma name_handlers_emit_json:
  "get_avatar_by_name st n = Inr r \<Longrightarrow> r \<in> range avatar_json"
  "get_avatar st n = Inr r \<Longrightarrow> r \<in> range avatar_json"
  by (auto simp: get_avatar_same get_avatar_by_name_cases split: option.splits)

lemma list_two_v2:
  "get_all_avatars (load_from from_filename_v2 [''Abraham Baker.png'', ''Adem Lane.png'']) 0 1 None =
     Inr [[(''name'', ''Abraham Baker''),
           (''imageurl'',
            ''http://www.tam-files.toko-aplikasi.my.id/images/avatars/Abraham%20Baker.png''),
           (''filename'', ''Abraham%20Baker.png'')]]"
  "get_avatars (load_from from_filename_v2 [''Abraham Baker.png'', ''Adem Lane.png'']) 0 1 None =
     Inr [[(''name'', ''Abraham Baker''),
           (''imageurl'',
            ''http://www.tam-files.toko-aplikasi.my.id/images/avatars/Abraham%20Baker.png''),
           (''filename'', ''Abraham%20Baker.png'')]]"
  by (simp_all add: get_all_avatars_def get_avatars_def search_avatars_def Let_def load_from_def
      py_slice_def slice_index_def avatar_json_def from_filename_v2_def urljoin_def
      BASE_AVATAR_URL_def)

lemma list_two_v1:
  "get_all_avatars (load_from from_filename_v1 [''Abraham Baker.png'', ''Adem Lane.png'']) 0 1 None =
     Inr [[(''name'', ''Abraham Baker''),
           (''imageurl'',
            ''http://www.tam-files.toko-aplikasi.my.id/images/avatars/Abraham Baker.png''),
           (''filename'', ''Abraham Baker.png'')]]"
  by (simp add: get_all_avatars_def search_avatars_def Let_def load_from_def
      py_slice_def slice_index_def avatar_json_def from_filename_v1_def urljoin_def
      BASE_AVATAR_URL_def)

text \<open>
  Claim C6, as stated, fails on the builder it cites (lines 250-254): the builder writes
  \<open>%20\<close> for the space in the URL, and the handlers take the \<open>filename\<close> field from the
  URL, so the field is \<open>Abraham%20Baker.png\<close> and not \<open>Abraham Baker.png\<close>.
\<close>

theorem list_filename_is_encoded:
  "get_all_avatars (load_from from_filename_v2 [''Abraham Baker.png'', ''Adem Lane.png'']) 0 1 None =
     Inr [[(''name'', ''Abraham Baker''),
           (''imageurl'',
            ''http://www.tam-files.toko-aplikasi.my.id/images/avatars/Abraham%20Baker.png''),
           (''filename'', ''Abraham%20Baker.png'')]] \<and>
   get_avatars (load_from from_filename_v2 [''Abraham Baker.png'', ''Adem Lane.png'']) 0 1 None =
     Inr [[(''name'', ''Abraham Baker''),
           (''imageurl'',
            ''http://www.tam-files.toko-aplikasi.my.id/images/avatars/Abraham%20Baker.png''),
           (''filename'', ''Abraham%20Baker.png'')]] \<and>
   ''Abraham%20Baker.png'' \<noteq> ''Abraham Baker.png''"
  using list_two_v2 by simp

text \<open>
  Claim C6, amended. Every record that the list handlers, the lookup by name and the random
  sample emit is the response form of an avatar record: the keys \<open>name\<close>, \<open>imageurl\<close> and
  \<open>filename\<close>, in this order, where \<open>filename\<close> is the part of \<open>imageurl\<close> after its last
  \<open>/\<close> (all of it when it has none). With the catalog built from \<open>Abraham Baker.png\<close> and
  \<open>Adem Lane.png\<close>, the list with limit 1 returns exactly one record, named
  \<open>Abraham Baker\<close>; its \<open>filename\<close> is \<open>Abraham%20Baker.png\<close> under the builder of lines
  250-254, which encodes the space in the URL, and \<open>Abraham Baker.png\<close> under the builder of
  lines 18-23, which does not.
\<close>

theorem response_record_shape:
  "map fst (avatar_json a) = [''name'', ''imageurl'', ''filename''] \<and>
   map_of (avatar_json a) ''name'' = Some (name a) \<and>
   map_of (avatar_json a) ''imageurl'' = Some (imageurl a) \<and>
   (\<exists>pre fn. map_of (avatar_json a) ''filename'' = Some fn \<and> imageurl a = pre @ fn \<and>
       CHR ''/'' \<notin> set fn \<and> (pre \<noteq> [] \<longrightarrow> last pre = CHR ''/'')) \<and>
   (\<forall>rs. get_all_avatars st skip limit search = Inr rs \<or>
         get_avatars st skip limit search = Inr rs \<or>
         get_random_avatars st draw count = Inr rs \<longrightarrow> set rs \<subseteq> range avatar_json) \<and>
   (\<forall>r. get_avatar_by_name st n = Inr r \<or> get_avatar st n = Inr r \<longrightarrow>
         r \<in> range avatar_json) \<and>
   get_avatars (load_from from_filename_v2 [''Abraham Baker.png'', ''Adem Lane.png'']) 0 1 None =
     Inr [[(''name'', ''Abraham Baker''),
           (''imageurl'',
            ''http://www.tam-files.toko-aplikasi.my.id/images/avatars/Abraham%20Baker.png''),
           (''filename'', ''Abraham%20Baker.png'')]] \<and>
   get_all_avatars (load_from from_filename_v1 [''Abraham Baker.png'', ''Adem Lane.png'']) 0 1 None =
     Inr [[(''name'', ''Abraham Baker''),
           (''imageurl'',
            ''http://www.tam-files.toko-aplikasi.my.id/images/avatars/Abraham Baker.png''),
           (''filename'', ''Abraham Baker.png'')]]"
proof -
  have keys: "map fst (avatar_json a) = [''name'', ''imageurl'', ''filename'']"
    and nm: "map_of (avatar_json a) ''name'' = Some (name a)"
    and url: "map_of (avatar_json a) ''imageurl'' = Some (imageurl a)"
    and fn: "map_of (avatar_json a) ''filename'' = Some (last (split_chr CHR ''/'' (imageurl a)))"
    by (simp_all add: avatar_json_def)
  from last_split_chr_segment [of "CHR ''/''" "imageurl a"] fn
  have seg: "\<exists>pre fn. map_of (avatar_json a) ''filename'' = Some fn \<and> imageurl a = pre @ fn \<and>
       CHR ''/'' \<notin> set fn \<and> (pre \<noteq> [] \<longrightarrow> last pre = CHR ''/'')"
    by blast
  have lists: "\<forall>rs. get_all_avatars st skip limit search = Inr rs \<or>
         get_avatars st skip limit search = Inr rs \<or>
         get_random_avatars st draw count = Inr rs \<longrightarrow> set rs \<subseteq> range avatar_json"
    using list_handlers_emit_json by blast
  have names: "\<forall>r. get_avatar_by_name st n = Inr r \<or> get_avatar st n = Inr r \<longrightarrow>
         r \<in> range avatar_json"
    using name_handlers_emit_json by blast
  from keys nm url seg lists names list_two_v2(2) list_two_v1 show ?thesis
    by (intro conjI)
qed

text \<open>
  The record that the lookup by name returns for \<open>adem\<close> on the catalog of \<open>FILENAMES\<close>.
\<close>

theorem response_record_shape_witness:
  "get_avatar load_avatars_v2 ''adem'' =
     Inr [(''name'', ''Adem Lane''),
          (''imageurl'', ''http://www.tam-files.toko-aplikasi.my.id/images/avatars/Adem%20Lane.png''),
          (''filename'', ''Adem%20Lane.png'')] \<and>
   [(''name'', ''Adem Lane''),
    (''imageurl'', ''http://www.tam-files.toko-aplikasi.my.id/images/avatars/Adem%20Lane.png''),
    (''filename'', ''Adem%20Lane.png'')] \<in> range avatar_json"
proof -
  let ?r = "[(''name'', ''Adem Lane''),
    (''imageurl'', ''http://www.tam-files.toko-aplikasi.my.id/images/avatars/Adem%20Lane.png''),
    (''filename'', ''Adem%20Lane.png'')]"
  have g: "get_avatar load_avatars_v2 ''adem'' = Inr ?r"
    by (simp add: get_avatar_def Let_def load_avatars_v2_def load_from_def FILENAMES_def
        index_by_name_def from_filename_v2_def lower_def lower_chr_def avatar_json_def
        urljoin_def BASE_AVATAR_URL_def)
  from response_record_shape [where st = load_avatars_v2 and n = "''adem''"] g
  have "?r \<in> range avatar_json"
    by blast
  with g show ?thesis by simp
qed

section \<open>The catalog builder\<close>

lemma replace_dot_skip:
  "CHR ''.'' \<notin> set stem \<Longrightarrow>
     replace (CHR ''.'' # r) new (stem @ t) = stem @ replace (CHR ''.'' # r) new t"
  by (induction stem) auto

lemma replace_dot_free:
  "CHR ''.'' \<notin> set stem \<Longrightarrow> replace (CHR ''.'' # r) new stem = stem"
  using replace_dot_skip [of stem r new "[]"] by simp

lemma no_space_after_replace: "CHR '' '' \<notin> set (replace '' '' ''%20'' s)"
  by (induction s) auto

lemma name_of_stem:
  assumes "CHR ''.'' \<notin> set stem"
  shows "name (from_filename_v2 (stem @ ''.png'')) = stem \<and>
         name (from_filename_v1 (stem @ ''.png'')) = stem \<and>
         name (from_filename_v1 (stem @ ''.jpg'')) = stem \<and>
         name (from_filename_v1 (stem @ ''.jpeg'')) = stem"
  using assms
  by (simp add: from_filename_v1_def from_filename_v2_def replace_dot_skip replace_dot_free)

lemma no_space_in_base: "CHR '' '' \<notin> set BASE_AVATAR_URL"
  by (simp add: BASE_AVATAR_URL_def)

text \<open>
  Claim C8, as stated, fails on the builder of lines 18-23, which joins the filename to the
  base URL as it is: the URL of \<open>Abraham Baker.png\<close> keeps its space. The name, in both
  builders, is the filename without every occurrence of the extension, wherever it stands.
\<close>

theorem builder_v1_keeps_space:
  "imageurl (from_filename_v1 ''Abraham Baker.png'') =
     ''http://www.tam-files.toko-aplikasi.my.id/images/avatars/Abraham Baker.png'' \<and>
   CHR '' '' \<in> set (imageurl (from_filename_v1 ''Abraham Baker.png'')) \<and>
   name (from_filename_v2 ''photo.png.bak'') = ''photo.bak'' \<and>
   name (from_filename_v1 ''photo.png.bak'') = ''photo.bak''"
  by (simp add: from_filename_v1_def from_filename_v2_def urljoin_def BASE_AVATAR_URL_def)

text \<open>
  Claim C8, amended. For a filename made of a stem without a dot and the extension \<open>.png\<close>,
  both builders produce the stem as the name; the builder of lines 18-23 does so for the
  extensions \<open>.jpg\<close> and \<open>.jpeg\<close> too. For a plain filename the builder of lines 250-254
  produces the base URL followed by the filename with \<open>%20\<close> for every space, a URL without
  a space, and the builder of lines 18-23 the base URL followed by the filename as it is.
  The catalog holds one record per filename, in the order of the input, and an empty list
  of filenames gives an empty list of records and an empty index.
\<close>

theorem catalog_builder:
  "(CHR ''.'' \<notin> set stem \<longrightarrow>
      name (from_filename_v2 (stem @ ''.png'')) = stem \<and>
      name (from_filename_v1 (stem @ ''.png'')) = stem \<and>
      name (from_filename_v1 (stem @ ''.jpg'')) = stem \<and>
      name (from_filename_v1 (stem @ ''.jpeg'')) = stem) \<and>
   (plain_segment f \<longrightarrow>
      imageurl (from_filename_v2 f) = BASE_AVATAR_URL @ replace '' '' ''%20'' f \<and>
      CHR '' '' \<notin> set (imageurl (from_filename_v2 f)) \<and>
      imageurl (from_filename_v1 f) = BASE_AVATAR_URL @ f) \<and>
   avatar_cache (load_from build fs) = map build fs \<and>
   length (avatar_cache (load_from build fs)) = length fs \<and>
   (\<forall>i < length fs. avatar_cache (load_from build fs) ! i = build (fs ! i)) \<and>
   avatar_cache (load_from build []) = [] \<and>
   avatar_dict (load_from build []) = Map.empty"
proof -
  have urls: "imageurl (from_filename_v2 f) = BASE_AVATAR_URL @ replace '' '' ''%20'' f \<and>
      CHR '' '' \<notin> set (imageurl (from_filename_v2 f)) \<and>
      imageurl (from_filename_v1 f) = BASE_AVATAR_URL @ f"
    using no_space_in_base no_space_after_replace [of f]
    by (simp add: from_filename_v1_def from_filename_v2_def urljoin_def)
  have cache: "avatar_cache (load_from build fs) = map build fs"
    by (simp add: load_from_def Let_def)
  have empty: "avatar_cache (load_from build []) = [] \<and> avatar_dict (load_from build []) = Map.empty"
    by (simp add: load_from_def Let_def index_by_name_def)
  have len: "length (avatar_cache (load_from build fs)) = length fs"
    and nth: "\<forall>i < length fs. avatar_cache (load_from build fs) ! i = build (fs ! i)"
    by (simp_all add: cache)
  from name_of_stem [of stem] urls cache len nth empty show ?thesis
    by blast
qed

text \<open>
  The second filename of \<open>FILENAMES\<close>.
\<close>

theorem catalog_builder_witness:
  "name (from_filename_v2 ''Adem Lane.png'') = ''Adem Lane'' \<and>
   imageurl (from_filename_v2 ''Adem Lane.png'') =
     ''http://www.tam-files.toko-aplikasi.my.id/images/avatars/Adem%20Lane.png'' \<and>
   avatar_cache (load_from from_filename_v2 FILENAMES) ! 1 = from_filename_v2 ''Adem Lane.png''"
proof -
  note t = catalog_builder [where stem = "''Adem Lane''" and f = "''Adem Lane.png''"
      and build = from_filename_v2 and fs = FILENAMES]
  have dot: "CHR ''.'' \<notin> set ''Adem Lane''"
    by simp
  have plain: "plain_segment ''Adem Lane.png''"
    by (simp add: plain_segment_def)
  have i: "1 < length FILENAMES"
    by (simp add: FILENAMES_def)
  from t dot have "name (from_filename_v2 (''Adem Lane'' @ ''.png'')) = ''Adem Lane''"
    by blast
  then have n: "name (from_filename_v2 ''Adem Lane.png'') = ''Adem Lane''"
    by simp
  from t plain have "imageurl (from_filename_v2 ''Adem Lane.png'') =
      BASE_AVATAR_URL @ replace '' '' ''%20'' ''Adem Lane.png''"
    by blast
  then have u: "imageurl (from_filename_v2 ''Adem Lane.png'') =
     ''http://www.tam-files.toko-aplikasi.my.id/images/avatars/Adem%20Lane.png''"
    by (simp add: BASE_AVATAR_URL_def)
  from t i have "avatar_cache (load_from from_filename_v2 FILENAMES) ! 1 =
      from_filename_v2 (FILENAMES ! 1)"
    by blast
  then have c: "avatar_cache (load_from from_filename_v2 FILENAMES) ! 1 =
      from_filename_v2 ''Adem Lane.png''"
    by (simp add: FILENAMES_def)
  from n u c show ?thesis by blast
qed

end
